theory Spec2Isabelle
  imports Complex_Main "HOL-Library.Sublist" "HOL-Library.Multiset"
begin

section \<open>Data model\<close>

text \<open>
  The dashboard script \<^verbatim>\<open>app.py\<close> works on pandas data frames. A cell is a number,
  a string or missing (pandas' NaN). A number is a real or one of the two infinities
  of float64, so that \<^verbatim>\<open>float('inf')\<close> and a division by zero have a value; the
  rounding of float64 and the sign of zero are not modelled. Every row carries its
  index label, as pandas rows do; selections keep the label of each row they keep.
  A row gives a cell for every name; the frame's \<open>columns\<close> say which names are columns.
  The calls into streamlit and the plotting libraries are not part of the model: a
  chart section ends with the frame it hands to them.
\<close>

datatype fval = NInf | Fin real | PInf

instantiation fval :: linorder
begin

fun less_eq_fval :: "fval \<Rightarrow> fval \<Rightarrow> bool" where
  "less_eq_fval NInf _ = True"
| "less_eq_fval (Fin x) NInf = False"
| "less_eq_fval (Fin x) (Fin y) = (x \<le> y)"
| "less_eq_fval (Fin x) PInf = True"
| "less_eq_fval PInf PInf = True"
| "less_eq_fval PInf _ = False"

definition less_fval :: "fval \<Rightarrow> fval \<Rightarrow> bool" where
  "less_fval a b = (a \<le> b \<and> \<not> b \<le> a)"

instance
proof
  fix x y z :: fval
  show "(x < y) = (x \<le> y \<and> \<not> y \<le> x)" by (simp add: less_fval_def)
  show "x \<le> x" by (cases x) simp_all
  show "x \<le> y \<Longrightarrow> y \<le> z \<Longrightarrow> x \<le> z" by (cases x; cases y; cases z) simp_all
  show "x \<le> y \<Longrightarrow> y \<le> x \<Longrightarrow> x = y" by (cases x; cases y) simp_all
  show "x \<le> y \<or> y \<le> x" by (cases x; cases y) auto
qed

end

datatype cell = Num fval | Str string | NA

type_synonym row = "string \<Rightarrow> cell"

record frame =
  columns :: "string list"
  rows :: "(nat \<times> row) list"

datatype error = KeyError string

text \<open>
  Frames are objects: \<^verbatim>\<open>df[c] = ...\<close> changes the frame it is applied to, and every
  name bound to that frame sees the change. The store is the list of all frames made so
  far, an address is a position in it, and a new frame is put at the end. A statement
  is a function from the store to a result, or the exception raised, and the store it
  leaves. The script only uses addresses it was given or has allocated.
\<close>

type_synonym addr = nat

type_synonym store = "frame list"

type_synonym 'a prog = "store \<Rightarrow> (error + 'a) \<times> store"

definition ret :: "'a \<Rightarrow> 'a prog" where
  "ret x \<sigma> = (Inr x, \<sigma>)"

definition raise :: "error \<Rightarrow> 'a prog" where
  "raise e \<sigma> = (Inl e, \<sigma>)"

definition bnd :: "'a prog \<Rightarrow> ('a \<Rightarrow> 'b prog) \<Rightarrow> 'b prog" where
  "bnd m f \<sigma> = (case m \<sigma> of (Inl e, \<sigma>') \<Rightarrow> (Inl e, \<sigma>') | (Inr x, \<sigma>') \<Rightarrow> f x \<sigma>')"

definition load :: "addr \<Rightarrow> frame prog" where
  "load a \<sigma> = (Inr (\<sigma> ! a), \<sigma>)"

definition alloc :: "frame \<Rightarrow> addr prog" where
  "alloc f \<sigma> = (Inr (length \<sigma>), \<sigma> @ [f])"

definition mutate :: "addr \<Rightarrow> (frame \<Rightarrow> frame) \<Rightarrow> unit prog" where
  "mutate a g \<sigma> = (Inr (), \<sigma>[a := g (\<sigma> ! a)])"

section \<open>Column discovery\<close>

text \<open>\<^verbatim>\<open>c.startswith(p)\<close>\<close>

definition startswith :: "string \<Rightarrow> string \<Rightarrow> bool" where
  "startswith c p = prefix p c"

text \<open>
  \<^verbatim>\<open>c.rsplit("_", 1)\<close>: split once at the last underscore; a string without an
  underscore is returned whole.
\<close>

definition rsplit1 :: "string \<Rightarrow> string list" where
  "rsplit1 c =
     (let suf = rev (takeWhile (\<lambda>x. x \<noteq> CHR ''_'') (rev c))
      in if CHR ''_'' \<in> set c then [take (length c - length suf - 1) c, suf] else [c])"

text \<open>
  Python's \<^verbatim>\<open>int(s)\<close> on a string, base 10: surrounding whitespace is stripped, one
  sign is allowed, then digits, where single underscores may stand between digits.
  \<open>None\<close> is the \<^verbatim>\<open>ValueError\<close>. Characters are bytes, so only ASCII whitespace and
  ASCII digits are recognised.
\<close>

definition is_space :: "char \<Rightarrow> bool" where
  "is_space ch = (let n = (of_char ch :: nat) in (9 \<le> n \<and> n \<le> 13) \<or> (28 \<le> n \<and> n \<le> 32))"

definition is_digit :: "char \<Rightarrow> bool" where
  "is_digit ch = (let n = (of_char ch :: nat) in 48 \<le> n \<and> n \<le> 57)"

definition digit_val :: "char \<Rightarrow> int" where
  "digit_val ch = int (of_char ch) - 48"

definition strip :: "string \<Rightarrow> string" where
  "strip s = rev (dropWhile is_space (rev (dropWhile is_space s)))"

fun digits_acc :: "int \<Rightarrow> string \<Rightarrow> int option" where
  "digits_acc acc [] = Some acc"
| "digits_acc acc [c] = (if is_digit c then Some (acc * 10 + digit_val c) else None)"
| "digits_acc acc (c # d # rest) =
     (if is_digit c then digits_acc (acc * 10 + digit_val c) (d # rest)
      else if c = CHR ''_'' \<and> is_digit d then digits_acc acc (d # rest)
      else None)"

definition digits :: "string \<Rightarrow> int option" where
  "digits t = (case t of [] \<Rightarrow> None | c # _ \<Rightarrow> if is_digit c then digits_acc 0 t else None)"

definition py_int :: "string \<Rightarrow> int option" where
  "py_int s =
     (case strip s of
        [] \<Rightarrow> None
      | ch # rest \<Rightarrow>
          if ch = CHR ''-'' then map_option uminus (digits rest)
          else if ch = CHR ''+'' then digits rest
          else digits (ch # rest))"

text \<open>
  \<^verbatim>\<open>year_of\<close>, the sort key inside \<^verbatim>\<open>available_year_cols\<close>: the integer after the last
  underscore, and 0 when \<^verbatim>\<open>int\<close> raises.
\<close>

definition year_of :: "string \<Rightarrow> int" where
  "year_of c = (case py_int (last (rsplit1 c)) of Some n \<Rightarrow> n | None \<Rightarrow> 0)"

text \<open>
  \<^verbatim>\<open>available_year_cols(prefix)\<close>, with the column names of the loaded table as a
  parameter. Python's \<^verbatim>\<open>sorted\<close> is stable, as \<^const>\<open>sort_key\<close> is.
\<close>

definition available_year_cols :: "string list \<Rightarrow> string \<Rightarrow> string list" where
  "available_year_cols cols p = sort_key year_of (filter (\<lambda>c. startswith c (p @ ''_'')) cols)"

definition pop_cols :: "string list \<Rightarrow> string list" where
  "pop_cols cols = available_year_cols cols ''populacao_estimada''"



definition bioma_cols :: "string list \<Rightarrow> string list" where
  "bioma_cols cols = filter (\<lambda>c. startswith c ''bioma_'') cols"

section \<open>The pandas operations the script uses\<close>

text \<open>
  \<^verbatim>\<open>pd.to_numeric(s, errors="coerce")\<close> on one cell. How pandas reads a number from
  a string is a parameter, \<open>parse\<close>; a string it cannot read becomes missing.
\<close>

type_synonym parser = "string \<Rightarrow> fval option"

definition to_numeric :: "parser \<Rightarrow> cell \<Rightarrow> cell" where
  "to_numeric parse v =
     (case v of Num x \<Rightarrow> Num x | NA \<Rightarrow> NA
      | Str s \<Rightarrow> (case parse s of Some x \<Rightarrow> Num x | None \<Rightarrow> NA))"

text \<open>\<^verbatim>\<open>s.fillna(d)\<close> on one cell.\<close>

definition fillna :: "cell \<Rightarrow> cell \<Rightarrow> cell" where
  "fillna d v = (if v = NA then d else v)"

text \<open>
  \<^verbatim>\<open>s >= t\<close> on one cell of a numeric column: a comparison with NaN is false.
\<close>

definition ge_num :: "cell \<Rightarrow> real \<Rightarrow> bool" where
  "ge_num v t = (case v of Num x \<Rightarrow> Fin t \<le> x | _ \<Rightarrow> False)"

text \<open>
  \<^verbatim>\<open>df[c] = s\<close>, where the new cell of each row is computed from the row: an existing
  column keeps its place, a new one goes last.
\<close>

definition setitem :: "string \<Rightarrow> (row \<Rightarrow> cell) \<Rightarrow> frame \<Rightarrow> frame" where
  "setitem c fn df =
     \<lparr>columns = (if c \<in> set (columns df) then columns df else columns df @ [c]),
      rows = map (\<lambda>(i, r). (i, r(c := fn r))) (rows df)\<rparr>"

text \<open>\<^verbatim>\<open>df[mask]\<close>: the rows whose mask is true, in order, under their labels.\<close>

definition select :: "(row \<Rightarrow> bool) \<Rightarrow> frame \<Rightarrow> frame" where
  "select P df = \<lparr>columns = columns df, rows = filter (\<lambda>(i, r). P r) (rows df)\<rparr>"

text \<open>The same operations as statements on frame objects.\<close>

definition df_copy :: "addr \<Rightarrow> addr prog" where
  "df_copy a = bnd (load a) alloc"

definition df_mask :: "addr \<Rightarrow> (row \<Rightarrow> bool) \<Rightarrow> addr prog" where
  "df_mask a P = bnd (load a) (\<lambda>f. alloc (select P f))"

text \<open>Reading \<^verbatim>\<open>df[c]\<close> raises \<^verbatim>\<open>KeyError\<close> when \<open>c\<close> is not a column.\<close>

definition need_col :: "addr \<Rightarrow> string \<Rightarrow> unit prog" where
  "need_col a c = bnd (load a) (\<lambda>f. if c \<in> set (columns f) then ret () else raise (KeyError c))"

definition df_setitem :: "addr \<Rightarrow> string \<Rightarrow> (row \<Rightarrow> cell) \<Rightarrow> unit prog" where
  "df_setitem a c fn = mutate a (setitem c fn)"

section \<open>Sidebar and filter stage\<close>

text \<open>
  \<^verbatim>\<open>estado_sel\<close>: what the multiselect returns (\<open>chosen\<close>) when the table has a column
  \<^verbatim>\<open>estado\<close>, and the empty list otherwise.
\<close>

definition sidebar_estado_sel :: "frame \<Rightarrow> cell list \<Rightarrow> cell list" where
  "sidebar_estado_sel df chosen = (if ''estado'' \<in> set (columns df) then chosen else [])"

text \<open>Python's truth value of \<^verbatim>\<open>pop_col\<close>, a string or \<^verbatim>\<open>None\<close>.\<close>

definition truthy :: "string option \<Rightarrow> bool" where
  "truthy s = (case s of None \<Rightarrow> False | Some c \<Rightarrow> c \<noteq> [])"

text \<open>
  Lines 120 to 125, \<^verbatim>\<open>df_filtered\<close>: the copy of the loaded table, narrowed to the
  selected states and then to the rows whose coerced population, with 0 for a missing
  one, reaches \<^verbatim>\<open>min_pop\<close>. The result is the address of \<^verbatim>\<open>df_filtered\<close>.
\<close>

definition filter_stage ::
  "parser \<Rightarrow> cell list \<Rightarrow> string option \<Rightarrow> real \<Rightarrow> addr \<Rightarrow> addr prog" where
  "filter_stage parse estado_sel pop_col min_pop df =
     bnd (df_copy df) (\<lambda>df_filtered.
     bnd (load df_filtered) (\<lambda>f.
     bnd (if estado_sel \<noteq> [] \<and> ''estado'' \<in> set (columns f)
          then df_mask df_filtered (\<lambda>r. r ''estado'' \<in> set estado_sel)
          else ret df_filtered) (\<lambda>df_filtered.
     if truthy pop_col then
       bnd (need_col df_filtered (the pop_col)) (\<lambda>_.
       bnd (df_setitem df_filtered (the pop_col) (\<lambda>r. to_numeric parse (r (the pop_col)))) (\<lambda>_.
       df_mask df_filtered (\<lambda>r. ge_num (fillna (Num (Fin 0)) (r (the pop_col))) min_pop)))
     else ret df_filtered)))"

section \<open>The first chart\<close>

text \<open>
  \<^verbatim>\<open>df[c] = pd.to_numeric(df[c], errors="coerce")\<close>: the column is read, so it has
  to exist, and is overwritten in the frame itself.
\<close>

definition df_to_numeric :: "parser \<Rightarrow> addr \<Rightarrow> string \<Rightarrow> unit prog" where
  "df_to_numeric parse a c =
     bnd (need_col a c) (\<lambda>_. df_setitem a c (\<lambda>r. to_numeric parse (r c)))"

text \<open>
  \<^verbatim>\<open>df.nlargest(n, c)\<close> and \<^verbatim>\<open>df.nsmallest(n, c)\<close> with the default
  \<^verbatim>\<open>keep='first'\<close>: the first \<open>n\<close> rows of the frame ordered by column \<open>c\<close>, rows with
  a missing value last. Rows with equal values are taken in their order in the frame;
  pandas leaves their order open when \<open>n\<close> is not smaller than the number of rows, and
  no property below depends on it. The result is a new frame. The script calls them on
  numeric columns only.
\<close>

definition num_key :: "cell \<Rightarrow> fval" where
  "num_key v = (case v of Num x \<Rightarrow> x | _ \<Rightarrow> Fin 0)"

definition nlargest :: "nat \<Rightarrow> string \<Rightarrow> frame \<Rightarrow> frame" where
  "nlargest n c df =
     \<lparr>columns = columns df,
      rows = take n
        (rev (sort_key (\<lambda>(i, r). num_key (r c)) (rev (filter (\<lambda>(i, r). r c \<noteq> NA) (rows df))))
         @ filter (\<lambda>(i, r). r c = NA) (rows df))\<rparr>"

definition nsmallest :: "nat \<Rightarrow> string \<Rightarrow> frame \<Rightarrow> frame" where
  "nsmallest n c df =
     \<lparr>columns = columns df,
      rows = take n
        (sort_key (\<lambda>(i, r). num_key (r c)) (filter (\<lambda>(i, r). r c \<noteq> NA) (rows df))
         @ filter (\<lambda>(i, r). r c = NA) (rows df))\<rparr>"

definition df_nlargest :: "addr \<Rightarrow> nat \<Rightarrow> string \<Rightarrow> addr prog" where
  "df_nlargest a n c = bnd (need_col a c) (\<lambda>_. bnd (load a) (\<lambda>f. alloc (nlargest n c f)))"

definition df_nsmallest :: "addr \<Rightarrow> nat \<Rightarrow> string \<Rightarrow> addr prog" where
  "df_nsmallest a n c = bnd (need_col a c) (\<lambda>_. bnd (load a) (\<lambda>f. alloc (nsmallest n c f)))"

text \<open>
  \<^verbatim>\<open>a + b\<close> on two cells of text columns: the concatenation, and missing when one of
  them is missing.
\<close>

definition str_add :: "cell \<Rightarrow> cell \<Rightarrow> cell" where
  "str_add a b = (case (a, b) of (Str x, Str y) \<Rightarrow> Str (x @ y) | _ \<Rightarrow> NA)"

text \<open>
  Lines 191 to 193, \<^verbatim>\<open>df_top\<close>: a copy of the filtered view whose population column
  is coerced with 0 for a missing value, cut down to the \<^verbatim>\<open>top_n\<close> largest.
\<close>

definition top_n_transform :: "parser \<Rightarrow> string \<Rightarrow> nat \<Rightarrow> addr \<Rightarrow> addr prog" where
  "top_n_transform parse pop_col top_n df_filtered =
     bnd (df_copy df_filtered) (\<lambda>df_top.
     bnd (need_col df_top pop_col) (\<lambda>_.
     bnd (df_setitem df_top pop_col (\<lambda>r. fillna (Num (Fin 0)) (to_numeric parse (r pop_col)))) (\<lambda>_.
     df_nlargest df_top top_n pop_col)))"

text \<open>
  Lines 190 to 196, the first chart: behind the guard on \<^verbatim>\<open>pop_col\<close> and the column
  \<^verbatim>\<open>municipio\<close>, the top rows get a label made of \<^verbatim>\<open>municipio\<close> and \<^verbatim>\<open>estado\<close>.
  The result is the frame given to the plotting library, or \<open>None\<close> when the chart is
  skipped.
\<close>

definition chart1 :: "parser \<Rightarrow> string option \<Rightarrow> nat \<Rightarrow> addr \<Rightarrow> addr option prog" where
  "chart1 parse pop_col top_n df_filtered =
     bnd (load df_filtered) (\<lambda>f.
     if truthy pop_col \<and> ''municipio'' \<in> set (columns f) then
       bnd (top_n_transform parse (the pop_col) top_n df_filtered) (\<lambda>df_top.
       bnd (need_col df_top ''municipio'') (\<lambda>_.
       bnd (need_col df_top ''estado'') (\<lambda>_.
       bnd (df_setitem df_top ''label''
              (\<lambda>r. str_add (str_add (r ''municipio'') (Str '' - '')) (r ''estado''))) (\<lambda>_.
       ret (Some df_top)))))
     else ret None)"

section \<open>Size categories: charts 4, 6 and 8\<close>

text \<open>
  \<^verbatim>\<open>df.dropna(subset=cs)\<close>: a new frame without the rows that miss a value in one of
  the columns \<open>cs\<close>; a name in \<open>cs\<close> that is not a column raises \<^verbatim>\<open>KeyError\<close> (here
  with the first such name).
\<close>

definition dropna :: "string list \<Rightarrow> frame \<Rightarrow> frame" where
  "dropna cs df = select (\<lambda>r. \<forall>c \<in> set cs. r c \<noteq> NA) df"

definition df_dropna :: "addr \<Rightarrow> string list \<Rightarrow> addr prog" where
  "df_dropna a cs =
     bnd (load a) (\<lambda>f.
       case filter (\<lambda>c. c \<notin> set (columns f)) cs of
         [] \<Rightarrow> alloc (dropna cs f)
       | c # _ \<Rightarrow> raise (KeyError c))"

text \<open>
  \<^verbatim>\<open>pd.cut(s, bins=bins, labels=labels)\<close> on one cell, with the defaults
  \<^verbatim>\<open>right=True\<close> and \<^verbatim>\<open>include_lowest=False\<close>: the label of the first interval
  \<open>(lo, hi]\<close> between two neighbouring edges that holds the value, and missing for a
  value in no interval and for a missing value.
\<close>

fun cut :: "fval list \<Rightarrow> string list \<Rightarrow> cell \<Rightarrow> cell" where
  "cut (lo # hi # bins) (l # labels) v =
     (case v of
        Num x \<Rightarrow> if lo < x \<and> x \<le> hi then Str l else cut (hi # bins) labels v
      | _ \<Rightarrow> NA)"
| "cut _ _ v = NA"

text \<open>
  The edges \<^verbatim>\<open>[0, 20000, 100000, 500000, float('inf')]\<close> and the two label lists of
  the script; the accented letters are the bytes of their UTF-8 encoding.
\<close>

definition porte_bins :: "fval list" where
  "porte_bins = [Fin 0, Fin 20000, Fin 100000, Fin 500000, PInf]"

definition porte_labels :: "string list" where
  "porte_labels = [''Pequeno'', ''M'' @ [CHR 0xC3, CHR 0xA9] @ ''dio'', ''Grande'',
     ''Metr'' @ [CHR 0xC3, CHR 0xB3] @ ''pole'']"

definition porte_labels_k :: "string list" where
  "porte_labels_k = [''Pequeno'' @ [CHR 0x0A] @ ''(<20k)'',
     ''M'' @ [CHR 0xC3, CHR 0xA9] @ ''dio'' @ [CHR 0x0A] @ ''(20-100k)'',
     ''Grande'' @ [CHR 0x0A] @ ''(100-500k)'',
     ''Metr'' @ [CHR 0xC3, CHR 0xB3] @ ''pole'' @ [CHR 0x0A] @ ''(>500k)'']"

text \<open>
  The shaping shared by charts 4, 6 and 8: a copy of the filtered view, two columns
  coerced in the order given, the rows that miss one of them dropped, and the size
  category \<^verbatim>\<open>porte\<close> cut from the column \<open>pop_col\<close>.
\<close>

definition porte_shape ::
  "parser \<Rightarrow> string \<Rightarrow> string \<Rightarrow> string \<Rightarrow> string list \<Rightarrow> addr \<Rightarrow> addr prog" where
  "porte_shape parse c1 c2 pop_col labels df_filtered =
     bnd (df_copy df_filtered) (\<lambda>d.
     bnd (df_to_numeric parse d c1) (\<lambda>_.
     bnd (df_to_numeric parse d c2) (\<lambda>_.
     bnd (df_dropna d [c1, c2]) (\<lambda>d.
     bnd (need_col d pop_col) (\<lambda>_.
     bnd (df_setitem d ''porte'' (\<lambda>r. cut porte_bins labels (r pop_col))) (\<lambda>_.
     ret d))))))"

text \<open>Lines 291 to 302, chart 4 (\<^verbatim>\<open>df_scatter\<close>).\<close>

definition chart4 :: "parser \<Rightarrow> string option \<Rightarrow> string option \<Rightarrow> addr \<Rightarrow> addr option prog" where
  "chart4 parse pop_col pib_col df_filtered =
     bnd (load df_filtered) (\<lambda>f.
     if truthy pop_col \<and> truthy pib_col \<and> ''municipio'' \<in> set (columns f) then
       bnd (porte_shape parse (the pop_col) (the pib_col) (the pop_col) porte_labels df_filtered)
         (\<lambda>df_scatter. ret (Some df_scatter))
     else ret None)"

text \<open>Lines 366 to 376, chart 6 (\<^verbatim>\<open>df_porte\<close>).\<close>

definition chart6 :: "parser \<Rightarrow> string option \<Rightarrow> string option \<Rightarrow> addr \<Rightarrow> addr option prog" where
  "chart6 parse pop_col pib_col df_filtered =
     (if truthy pop_col \<and> truthy pib_col then
       bnd (porte_shape parse (the pop_col) (the pib_col) (the pop_col) porte_labels_k df_filtered)
         (\<lambda>df_porte. ret (Some df_porte))
     else ret None)"

text \<open>Lines 444 to 454, chart 8 (\<^verbatim>\<open>df_idh_pop\<close>).\<close>

definition chart8 :: "parser \<Rightarrow> string option \<Rightarrow> string option \<Rightarrow> addr \<Rightarrow> addr option prog" where
  "chart8 parse idh_col pop_col df_filtered =
     (if truthy idh_col \<and> truthy pop_col then
       bnd (porte_shape parse (the idh_col) (the pop_col) (the pop_col) porte_labels df_filtered)
         (\<lambda>df_idh_pop. ret (Some df_idh_pop))
     else ret None)"



section \<open>The ranking chart\<close>

text \<open>
  \<^verbatim>\<open>df[cs]\<close> with a list of names: a new frame with these columns only; a name that is
  not a column raises \<^verbatim>\<open>KeyError\<close> (here with the first such name).
\<close>

definition project :: "string list \<Rightarrow> frame \<Rightarrow> frame" where
  "project cs df =
     \<lparr>columns = cs, rows = map (\<lambda>(i, r). (i, (\<lambda>c. if c \<in> set cs then r c else NA))) (rows df)\<rparr>"

definition df_project :: "addr \<Rightarrow> string list \<Rightarrow> addr prog" where
  "df_project a cs =
     bnd (load a) (\<lambda>f.
       case filter (\<lambda>c. c \<notin> set (columns f)) cs of
         [] \<Rightarrow> alloc (project cs f)
       | c # _ \<Rightarrow> raise (KeyError c))"

text \<open>
  \<^verbatim>\<open>pd.concat([a, b])\<close>: a new frame with the rows of \<open>a\<close> and then the rows of \<open>b\<close>,
  each under its own label, so a label can occur twice.
\<close>

definition concat_frames :: "frame \<Rightarrow> frame \<Rightarrow> frame" where
  "concat_frames fa fb =
     \<lparr>columns = columns fa @ filter (\<lambda>c. c \<notin> set (columns fa)) (columns fb),
      rows = rows fa @ rows fb\<rparr>"

definition df_concat :: "addr \<Rightarrow> addr \<Rightarrow> addr prog" where
  "df_concat a b = bnd (load a) (\<lambda>fa. bnd (load b) (\<lambda>fb. alloc (concat_frames fa fb)))"

text \<open>
  Lines 481 to 493, the ranking chart: the rows with a readable HDI, the 10 largest
  tagged as best and the 10 smallest tagged as worst, put one after the other.
\<close>

definition chart9 :: "parser \<Rightarrow> string option \<Rightarrow> addr \<Rightarrow> addr option prog" where
  "chart9 parse idh_col df_filtered =
     bnd (load df_filtered) (\<lambda>f.
     if truthy idh_col \<and> ''municipio'' \<in> set (columns f) then
       bnd (df_copy df_filtered) (\<lambda>df_idh_ranking.
       bnd (df_to_numeric parse df_idh_ranking (the idh_col)) (\<lambda>_.
       bnd (df_dropna df_idh_ranking [the idh_col]) (\<lambda>df_idh_ranking.
       bnd (df_nlargest df_idh_ranking 10 (the idh_col)) (\<lambda>t.
       bnd (df_project t [''municipio'', ''estado'', the idh_col]) (\<lambda>t.
       bnd (df_copy t) (\<lambda>top_10.
       bnd (df_setitem top_10 ''categoria'' (\<lambda>_. Str ''Top 10 Melhores'')) (\<lambda>_.
       bnd (df_nsmallest df_idh_ranking 10 (the idh_col)) (\<lambda>b.
       bnd (df_project b [''municipio'', ''estado'', the idh_col]) (\<lambda>b.
       bnd (df_copy b) (\<lambda>bottom_10.
       bnd (df_setitem bottom_10 ''categoria'' (\<lambda>_. Str ''Top 10 Piores'')) (\<lambda>_.
       bnd (df_concat top_10 bottom_10) (\<lambda>df_comparison.
       bnd (need_col df_comparison ''municipio'') (\<lambda>_.
       bnd (need_col df_comparison ''estado'') (\<lambda>_.
       bnd (df_setitem df_comparison ''label''
              (\<lambda>r. str_add (str_add (r ''municipio'') (Str '' - '')) (r ''estado''))) (\<lambda>_.
       ret (Some df_comparison))))))))))))))))
     else ret None)"

section \<open>The map tab\<close>

text \<open>\<^verbatim>\<open>c in df.columns\<close> for a name that may be \<^verbatim>\<open>None\<close>.\<close>

definition in_columns :: "string option \<Rightarrow> frame \<Rightarrow> bool" where
  "in_columns c f = (case c of None \<Rightarrow> False | Some s \<Rightarrow> s \<in> set (columns f))"

text \<open>
  \<^verbatim>\<open>df[c].max()\<close> on a numeric column: the largest number in it, and missing when it
  holds no number.
\<close>

definition is_num :: "cell \<Rightarrow> bool" where
  "is_num v = (case v of Num _ \<Rightarrow> True | _ \<Rightarrow> False)"

definition series_max :: "string \<Rightarrow> frame \<Rightarrow> cell" where
  "series_max c df =
     (case map (\<lambda>(i, r). num_key (r c)) (filter (\<lambda>(i, r). is_num (r c)) (rows df)) of
        [] \<Rightarrow> NA
      | x # xs \<Rightarrow> Num (fold max xs x))"

text \<open>
  Division of two float64 numbers and of two cells: a finite number by zero is an
  infinity with the sign of the number, zero by zero and infinity by infinity are NaN,
  and a missing operand gives a missing result.
\<close>

fun fdiv :: "fval \<Rightarrow> fval \<Rightarrow> cell" where
  "fdiv (Fin a) (Fin b) =
     (if b \<noteq> 0 then Num (Fin (a / b))
      else if a = 0 then NA else if 0 < a then Num PInf else Num NInf)"
| "fdiv (Fin a) PInf = Num (Fin 0)"
| "fdiv (Fin a) NInf = Num (Fin 0)"
| "fdiv PInf (Fin b) = (if 0 \<le> b then Num PInf else Num NInf)"
| "fdiv NInf (Fin b) = (if 0 \<le> b then Num NInf else Num PInf)"
| "fdiv _ _ = NA"

definition cell_div :: "cell \<Rightarrow> cell \<Rightarrow> cell" where
  "cell_div u v = (case (u, v) of (Num a, Num b) \<Rightarrow> fdiv a b | _ \<Rightarrow> NA)"

text \<open>A cell times a finite number.\<close>

definition cell_mul :: "cell \<Rightarrow> real \<Rightarrow> cell" where
  "cell_mul u k =
     (case u of
        Num (Fin a) \<Rightarrow> Num (Fin (a * k))
      | Num PInf \<Rightarrow> (if 0 < k then Num PInf else if k < 0 then Num NInf else NA)
      | Num NInf \<Rightarrow> (if 0 < k then Num NInf else if k < 0 then Num PInf else NA)
      | _ \<Rightarrow> NA)"

text \<open>
  Lines 521 to 566, the map tab: behind the guard on the two coordinate columns, a
  copy of the filtered view with the coordinates coerced and the rows without both
  dropped, the population and HDI columns (when they are columns) coerced with 0 for a
  missing value, and for the 3D map the column \<^verbatim>\<open>pop_norm\<close>, the population divided by
  the largest population of this frame, times 500000.
\<close>

definition map_section ::
  "parser \<Rightarrow> string option \<Rightarrow> string option \<Rightarrow> addr \<Rightarrow> addr option prog" where
  "map_section parse pop_col idh_col df_filtered =
     bnd (load df_filtered) (\<lambda>f.
     if ''latitude'' \<in> set (columns f) \<and> ''longitude'' \<in> set (columns f) then
       bnd (df_copy df_filtered) (\<lambda>df_map.
       bnd (df_to_numeric parse df_map ''latitude'') (\<lambda>_.
       bnd (df_to_numeric parse df_map ''longitude'') (\<lambda>_.
       bnd (df_dropna df_map [''latitude'', ''longitude'']) (\<lambda>df_map.
       bnd (load df_map) (\<lambda>m.
       bnd (if in_columns pop_col m
            then df_setitem df_map (the pop_col)
                   (\<lambda>r. fillna (Num (Fin 0)) (to_numeric parse (r (the pop_col))))
            else ret ()) (\<lambda>_.
       bnd (load df_map) (\<lambda>m.
       bnd (if in_columns idh_col m
            then df_setitem df_map (the idh_col)
                   (\<lambda>r. fillna (Num (Fin 0)) (to_numeric parse (r (the idh_col))))
            else ret ()) (\<lambda>_.
       bnd (load df_map) (\<lambda>m.
       bnd (if in_columns pop_col m
            then df_setitem df_map ''pop_norm''
                   (\<lambda>r. cell_mul (cell_div (r (the pop_col)) (series_max (the pop_col) m)) 500000)
            else ret ()) (\<lambda>_.
       ret (Some df_map)))))))))))
     else ret None)"

section \<open>The whole script and the frame condition\<close>

text \<open>
  Line 258, \<^verbatim>\<open>bioma_col\<close>: the last biome column of the loaded table, if it has one.
\<close>

definition last_bioma_col :: "string list \<Rightarrow> string option" where
  "last_bioma_col cols = (if bioma_cols cols = [] then None else Some (last (bioma_cols cols)))"

text \<open>The text \<^verbatim>\<open>Sem informacao\<close> of the script, with its accented letters in UTF-8.\<close>

definition sem_informacao :: string where
  "sem_informacao = ''Sem informa'' @ [CHR 0xC3, CHR 0xA7, CHR 0xC3, CHR 0xA3] @ ''o''"

text \<open>
  Lines 259 to 261, chart 3 (\<^verbatim>\<open>df_bioma\<close>); lines 334 to 336, chart 5
  (\<^verbatim>\<open>df_pib_estado\<close>); lines 409 to 412, chart 7 (\<^verbatim>\<open>df_idh\<close>). The group-by, sort and
  plotting calls that follow only read these frames and build new values; they are
  left out, as is chart 2, which only groups the filtered view.
\<close>

definition chart3 :: "string option \<Rightarrow> string option \<Rightarrow> addr \<Rightarrow> addr option prog" where
  "chart3 bioma_col pop_col df_filtered =
     (if truthy bioma_col \<and> truthy pop_col then
        bnd (df_copy df_filtered) (\<lambda>df_bioma.
        bnd (need_col df_bioma (the bioma_col)) (\<lambda>_.
        bnd (df_setitem df_bioma (the bioma_col)
               (\<lambda>r. fillna (Str sem_informacao) (r (the bioma_col)))) (\<lambda>_.
        ret (Some df_bioma))))
      else ret None)"

definition chart5 :: "parser \<Rightarrow> string option \<Rightarrow> addr \<Rightarrow> addr option prog" where
  "chart5 parse pib_col df_filtered =
     bnd (load df_filtered) (\<lambda>f.
     if truthy pib_col \<and> ''estado'' \<in> set (columns f) then
       bnd (df_copy df_filtered) (\<lambda>df_pib_estado.
       bnd (df_to_numeric parse df_pib_estado (the pib_col)) (\<lambda>_.
       ret (Some df_pib_estado)))
     else ret None)"

definition chart7 :: "parser \<Rightarrow> string option \<Rightarrow> addr \<Rightarrow> addr option prog" where
  "chart7 parse idh_col df_filtered =
     bnd (load df_filtered) (\<lambda>f.
     if truthy idh_col \<and> ''estado'' \<in> set (columns f) then
       bnd (df_copy df_filtered) (\<lambda>df_idh.
       bnd (df_to_numeric parse df_idh (the idh_col)) (\<lambda>_.
       bnd (df_dropna df_idh [the idh_col]) (\<lambda>df_idh.
       ret (Some df_idh))))
     else ret None)"

text \<open>
  What the user has set in the sidebar, and one run of the script on the cached table
  at address \<open>df\<close>: the filter stage and then every chart section in the order of the
  script. An exception ends the run.
\<close>

record ui =
  ui_estados :: "cell list"
  ui_pop_col :: "string option"
  ui_pib_col :: "string option"
  ui_idh_col :: "string option"
  ui_min_pop :: real
  ui_top_n :: nat

definition script :: "parser \<Rightarrow> ui \<Rightarrow> addr \<Rightarrow> unit prog" where
  "script parse u df =
     bnd (load df) (\<lambda>f.
     bnd (filter_stage parse (sidebar_estado_sel f (ui_estados u)) (ui_pop_col u)
            (ui_min_pop u) df) (\<lambda>df_filtered.
     bnd (chart1 parse (ui_pop_col u) (ui_top_n u) df_filtered) (\<lambda>_.
     bnd (chart3 (last_bioma_col (columns f)) (ui_pop_col u) df_filtered) (\<lambda>_.
     bnd (chart4 parse (ui_pop_col u) (ui_pib_col u) df_filtered) (\<lambda>_.
     bnd (chart5 parse (ui_pib_col u) df_filtered) (\<lambda>_.
     bnd (chart6 parse (ui_pop_col u) (ui_pib_col u) df_filtered) (\<lambda>_.
     bnd (chart7 parse (ui_idh_col u) df_filtered) (\<lambda>_.
     bnd (chart8 parse (ui_idh_col u) (ui_pop_col u) df_filtered) (\<lambda>_.
     bnd (chart9 parse (ui_idh_col u) df_filtered) (\<lambda>_.
     bnd (map_section parse (ui_pop_col u) (ui_idh_col u) df_filtered) (\<lambda>_.
     ret ())))))))))))"

text \<open>
  Every interaction of the user runs the script again on the same cached table, with
  the store the run before has left, whether that run ended with an exception or not.
\<close>

fun reruns :: "parser \<Rightarrow> ui list \<Rightarrow> addr \<Rightarrow> store \<Rightarrow> store" where
  "reruns parse [] df \<sigma> = \<sigma>"
| "reruns parse (u # us) df \<sigma> = reruns parse us df (snd (script parse u df \<sigma>))"

text \<open>
  The frame condition. A store \<open>\<sigma>'\<close> keeps the first \<open>n\<close> frames of \<open>\<sigma>\<close> when it has
  them unchanged. A statement is local above \<open>n\<close> when, run in any store with at least
  \<open>n\<close> frames, it leaves a store that keeps the first \<open>n\<close>; it is moreover new above
  \<open>n\<close> when the address it returns is not among the first \<open>n\<close>.
\<close>

definition keeps :: "nat \<Rightarrow> store \<Rightarrow> store \<Rightarrow> bool" where
  "keeps n \<sigma> \<sigma>' = (length \<sigma> \<le> length \<sigma>' \<and> (\<forall>a<n. \<sigma>' ! a = \<sigma> ! a))"

definition local_any :: "nat \<Rightarrow> 'a prog \<Rightarrow> bool" where
  "local_any n m = (\<forall>\<sigma>. n \<le> length \<sigma> \<longrightarrow> keeps n \<sigma> (snd (m \<sigma>)))"

definition local_new :: "nat \<Rightarrow> addr prog \<Rightarrow> bool" where
  "local_new n m =
     (\<forall>\<sigma>. n \<le> length \<sigma> \<longrightarrow> keeps n \<sigma> (snd (m \<sigma>)) \<and> (\<forall>a. fst (m \<sigma>) = Inr a \<longrightarrow> n \<le> a))"

section \<open>Example tables\<close>

text \<open>
  A small table in the shape of the data set: two rows with a population, one with a
  missing population, and one whose population is text and whose state is written in
  lower case.
\<close>

definition ex_row :: "string \<Rightarrow> string \<Rightarrow> cell \<Rightarrow> row" where
  "ex_row m e p = (\<lambda>_. NA)(''municipio'' := Str m, ''estado'' := Str e, ''populacao_estimada_2020'' := p)"

definition ex_table :: frame where
  "ex_table = \<lparr>columns = [''municipio'', ''estado'', ''populacao_estimada_2020''],
     rows = [(0, ex_row ''Sao Paulo'' ''SP'' (Num (Fin 12000000))),
             (1, ex_row ''Rio de Janeiro'' ''RJ'' (Num (Fin 6000000))),
             (2, ex_row ''Campinas'' ''SP'' NA),
             (3, ex_row ''Santos'' ''sp'' (Str ''n/d''))]\<rparr>"


text \<open>A table without the column \<^verbatim>\<open>estado\<close>.\<close>

definition ex_no_estado :: frame where
  "ex_no_estado = \<lparr>columns = [''municipio'', ''populacao_estimada_2020''],
     rows = [(0, (\<lambda>_. NA)(''municipio'' := Str ''Sao Paulo'',
                 ''populacao_estimada_2020'' := Num (Fin 12000000)))]\<rparr>"





text \<open>Two settings of the sidebar.\<close>

definition ex_ui_1 :: ui where
  "ex_ui_1 = \<lparr>ui_estados = [Str ''SP''], ui_pop_col = Some ''populacao_estimada_2020'',
     ui_pib_col = None, ui_idh_col = None, ui_min_pop = 1000, ui_top_n = 5\<rparr>"

definition ex_ui_2 :: ui where
  "ex_ui_2 = \<lparr>ui_estados = [], ui_pop_col = Some ''populacao_estimada_2020'',
     ui_pib_col = None, ui_idh_col = None, ui_min_pop = 0, ui_top_n = 50\<rparr>"

section \<open>Properties of column discovery\<close>



lemma available_year_cols_set:
  "set (available_year_cols cols p) = {c \<in> set cols. startswith c (p @ ''_'')}"
  by (simp add: available_year_cols_def)







section \<open>Properties of the filter stage\<close>

lemma pop_cols_facts:
  assumes "c \<in> set (pop_cols cols)"
  shows "c \<in> set cols" "c \<noteq> []" "c \<noteq> ''estado''"
  using assms by (auto simp: pop_cols_def available_year_cols_set startswith_def)

lemma filter_stage_run:
  assumes "a < length \<sigma>" "c \<in> set (columns (\<sigma> ! a))" "c \<noteq> []"
  shows "\<exists>a' \<sigma>'. filter_stage parse S (Some c) t a \<sigma> = (Inr a', \<sigma>')
     \<and> a' < length \<sigma>' \<and> length \<sigma> \<le> a'
     \<and> \<sigma>' ! a' = select (\<lambda>r. ge_num (fillna (Num (Fin 0)) (r c)) t)
          (setitem c (\<lambda>r. to_numeric parse (r c))
            (if S \<noteq> [] \<and> ''estado'' \<in> set (columns (\<sigma> ! a)) then select (\<lambda>r. r ''estado'' \<in> set S) (\<sigma> ! a) else \<sigma> ! a))"
  using assms
  by (simp add: filter_stage_def bnd_def df_copy_def load_def alloc_def ret_def raise_def df_mask_def
      need_col_def df_setitem_def mutate_def truthy_def nth_append select_def setitem_def)

lemma filter_stage_run_none:
  assumes "a < length \<sigma>"
  shows "\<exists>a' \<sigma>'. filter_stage parse S None t a \<sigma> = (Inr a', \<sigma>')
     \<and> a' < length \<sigma>' \<and> length \<sigma> \<le> a'
     \<and> \<sigma>' ! a' = (if S \<noteq> [] \<and> ''estado'' \<in> set (columns (\<sigma> ! a)) then select (\<lambda>r. r ''estado'' \<in> set S) (\<sigma> ! a) else \<sigma> ! a)"
  using assms
  by (simp add: filter_stage_def bnd_def df_copy_def load_def alloc_def ret_def raise_def df_mask_def
      truthy_def nth_append select_def)

lemma ge_num_fillna:
  "ge_num (fillna (Num (Fin 0)) (to_numeric parse v)) t
     = (Fin t \<le> (case to_numeric parse v of Num x \<Rightarrow> x | _ \<Rightarrow> Fin 0))"
  by (auto simp: ge_num_def fillna_def to_numeric_def split: cell.splits option.splits)

lemma to_numeric_not_Str: "to_numeric parse v \<noteq> Str s"
  by (auto simp: to_numeric_def split: cell.splits option.splits)

text \<open>
  C1. With \<open>c\<close> the population column chosen in the sidebar (one of the population
  columns found by column discovery) and any threshold \<open>t\<close>, the filter stage returns
  the filtered view: the columns of the loaded table, and exactly the rows of the
  loaded table that pass the state filter and whose coerced population, with 0 for a
  missing or unreadable one, is at least \<open>t\<close>, in their order and with the population
  column coerced. So when \<open>t\<close> is positive no row of the view has a missing population.
\<close>

theorem population_filter:
  assumes "df < length \<sigma>" and "c \<in> set (pop_cols (columns (\<sigma> ! df)))"
  shows "\<exists>a \<sigma>'. filter_stage parse S (Some c) t df \<sigma> = (Inr a, \<sigma>')
     \<and> columns (\<sigma>' ! a) = columns (\<sigma> ! df)
     \<and> rows (\<sigma>' ! a) = map (\<lambda>(i, r). (i, r(c := to_numeric parse (r c))))
          (filter (\<lambda>(i, r). (S = [] \<or> ''estado'' \<notin> set (columns (\<sigma> ! df)) \<or> r ''estado'' \<in> set S)
                     \<and> Fin t \<le> (case to_numeric parse (r c) of Num x \<Rightarrow> x | _ \<Rightarrow> Fin 0))
             (rows (\<sigma> ! df)))
     \<and> (0 < t \<longrightarrow> (\<forall>(i, r) \<in> set (rows (\<sigma>' ! a)). r c \<noteq> NA))"
proof -
  from assms(2) have c: "c \<in> set (columns (\<sigma> ! df))" "c \<noteq> []"
    by (rule pop_cols_facts)+
  from filter_stage_run [OF assms(1) c, of parse S t] obtain a \<sigma>' where
    run: "filter_stage parse S (Some c) t df \<sigma> = (Inr a, \<sigma>')" and
    view: "\<sigma>' ! a = select (\<lambda>r. ge_num (fillna (Num (Fin 0)) (r c)) t)
          (setitem c (\<lambda>r. to_numeric parse (r c))
            (if S \<noteq> [] \<and> ''estado'' \<in> set (columns (\<sigma> ! df)) then select (\<lambda>r. r ''estado'' \<in> set S) (\<sigma> ! df) else \<sigma> ! df))"
    by blast
  have cols: "columns (\<sigma>' ! a) = columns (\<sigma> ! df)"
    using c by (simp add: view select_def setitem_def)
  have rws: "rows (\<sigma>' ! a) = map (\<lambda>(i, r). (i, r(c := to_numeric parse (r c))))
          (filter (\<lambda>(i, r). (S = [] \<or> ''estado'' \<notin> set (columns (\<sigma> ! df)) \<or> r ''estado'' \<in> set S)
                     \<and> Fin t \<le> (case to_numeric parse (r c) of Num x \<Rightarrow> x | _ \<Rightarrow> Fin 0))
             (rows (\<sigma> ! df)))"
    by (auto simp: view select_def setitem_def filter_map comp_def case_prod_unfold ge_num_fillna
        intro!: arg_cong [where f = "map _"] filter_cong)
  have pos: "0 < t \<longrightarrow> (\<forall>(i, r) \<in> set (rows (\<sigma>' ! a)). r c \<noteq> NA)"
    by (auto simp: rws to_numeric_def split: cell.splits option.splits)
  from run cols rws pos show ?thesis by blast
qed


theorem population_filter_witness:
  "(0::nat) < length [ex_table]
   \<and> ''populacao_estimada_2020'' \<in> set (pop_cols (columns ([ex_table] ! 0)))
   \<and> (\<exists>a \<sigma>'. filter_stage (\<lambda>_. None) [Str ''SP''] (Some ''populacao_estimada_2020'') 1000 0 [ex_table]
          = (Inr a, \<sigma>') \<and> map fst (rows (\<sigma>' ! a)) = [0])"
proof -
  have h1: "(0::nat) < length [ex_table]" by simp
  have h2: "''populacao_estimada_2020'' \<in> set (pop_cols (columns ([ex_table] ! 0)))"
    by (simp add: ex_table_def pop_cols_def available_year_cols_def startswith_def)
  from population_filter [OF h1 h2, of "\<lambda>_. None" "[Str ''SP'']" 1000]
  obtain a \<sigma>' where
    "filter_stage (\<lambda>_. None) [Str ''SP''] (Some ''populacao_estimada_2020'') 1000 0 [ex_table] = (Inr a, \<sigma>')"
    "map fst (rows (\<sigma>' ! a)) = [0]"
    by (auto simp: ex_table_def ex_row_def to_numeric_def)
  with h1 h2 show ?thesis by simp
qed

text \<open>
  C4. With \<open>S\<close> the selected states, for either outcome of the population select box:
  if \<open>S\<close> is empty the state filter does nothing, the view is what the population
  filter alone leaves of the loaded table; if \<open>S\<close> is not empty the view holds exactly
  the rows whose raw state cell is an element of \<open>S\<close> (and that pass the population
  filter), so the state of every row of the view is in \<open>S\<close>. The test is equality of
  cells: nothing is normalised.
\<close>

theorem state_filter_membership:
  assumes "df < length \<sigma>"
    and "pc = None \<or> (\<exists>c \<in> set (pop_cols (columns (\<sigma> ! df))). pc = Some c)"
    and "S = sidebar_estado_sel (\<sigma> ! df) chosen"
  shows "\<exists>a \<sigma>'. filter_stage parse S pc t df \<sigma> = (Inr a, \<sigma>')
     \<and> (S = [] \<longrightarrow> rows (\<sigma>' ! a) =
          (case pc of None \<Rightarrow> rows (\<sigma> ! df)
           | Some c \<Rightarrow> map (\<lambda>(i, r). (i, r(c := to_numeric parse (r c))))
               (filter (\<lambda>(i, r). Fin t \<le> (case to_numeric parse (r c) of Num x \<Rightarrow> x | _ \<Rightarrow> Fin 0))
                  (rows (\<sigma> ! df)))))
     \<and> (S \<noteq> [] \<longrightarrow>
          map fst (rows (\<sigma>' ! a)) = map fst
            (filter (\<lambda>(i, r). r ''estado'' \<in> set S \<and>
                (case pc of None \<Rightarrow> True
                 | Some c \<Rightarrow> Fin t \<le> (case to_numeric parse (r c) of Num x \<Rightarrow> x | _ \<Rightarrow> Fin 0)))
               (rows (\<sigma> ! df)))
          \<and> (\<forall>(i, r) \<in> set (rows (\<sigma>' ! a)). r ''estado'' \<in> set S))"
proof -
  have col: "S \<noteq> [] \<Longrightarrow> ''estado'' \<in> set (columns (\<sigma> ! df))"
    using assms(3) by (simp add: sidebar_estado_sel_def split: if_splits)
  show ?thesis
  proof (cases pc)
    case None
    from filter_stage_run_none [OF assms(1), of parse S t] obtain a \<sigma>' where
      run: "filter_stage parse S None t df \<sigma> = (Inr a, \<sigma>')" and
      view: "\<sigma>' ! a = (if S \<noteq> [] \<and> ''estado'' \<in> set (columns (\<sigma> ! df))
               then select (\<lambda>r. r ''estado'' \<in> set S) (\<sigma> ! df) else \<sigma> ! df)"
      by blast
    have e: "S = [] \<longrightarrow> rows (\<sigma>' ! a) = rows (\<sigma> ! df)"
      by (simp add: view)
    have n1: "S \<noteq> [] \<longrightarrow> map fst (rows (\<sigma>' ! a))
        = map fst (filter (\<lambda>(i, r). r ''estado'' \<in> set S \<and> True) (rows (\<sigma> ! df)))"
      using col by (simp add: view select_def)
    have n2: "S \<noteq> [] \<longrightarrow> (\<forall>(i, r) \<in> set (rows (\<sigma>' ! a)). r ''estado'' \<in> set S)"
      using col by (auto simp: view select_def)
    from run e n1 n2 show ?thesis unfolding None by (simp del: split_paired_All)
  next
    case (Some c)
    with assms(2) have "c \<in> set (pop_cols (columns (\<sigma> ! df)))" by auto
    then have c: "c \<in> set (columns (\<sigma> ! df))" "c \<noteq> []" "c \<noteq> ''estado''"
      by (rule pop_cols_facts)+
    from filter_stage_run [OF assms(1) c(1,2), of parse S t] obtain a \<sigma>' where
      run: "filter_stage parse S (Some c) t df \<sigma> = (Inr a, \<sigma>')" and
      view: "\<sigma>' ! a = select (\<lambda>r. ge_num (fillna (Num (Fin 0)) (r c)) t)
            (setitem c (\<lambda>r. to_numeric parse (r c))
              (if S \<noteq> [] \<and> ''estado'' \<in> set (columns (\<sigma> ! df))
               then select (\<lambda>r. r ''estado'' \<in> set S) (\<sigma> ! df) else \<sigma> ! df))"
      by blast
    have e: "S = [] \<longrightarrow> rows (\<sigma>' ! a) = map (\<lambda>(i, r). (i, r(c := to_numeric parse (r c))))
            (filter (\<lambda>(i, r). Fin t \<le> (case to_numeric parse (r c) of Num x \<Rightarrow> x | _ \<Rightarrow> Fin 0))
               (rows (\<sigma> ! df)))"
      by (auto simp: view select_def setitem_def filter_map comp_def case_prod_unfold ge_num_fillna)
    have n1: "S \<noteq> [] \<longrightarrow> map fst (rows (\<sigma>' ! a)) = map fst
            (filter (\<lambda>(i, r). r ''estado'' \<in> set S
                       \<and> Fin t \<le> (case to_numeric parse (r c) of Num x \<Rightarrow> x | _ \<Rightarrow> Fin 0))
               (rows (\<sigma> ! df)))"
      using col
      by (auto simp: view select_def setitem_def filter_map comp_def case_prod_unfold ge_num_fillna
          intro!: arg_cong [where f = "map _"] filter_cong)
    have n2: "S \<noteq> [] \<longrightarrow> (\<forall>(i, r) \<in> set (rows (\<sigma>' ! a)). r ''estado'' \<in> set S)"
      using col c(3) by (auto simp: view select_def setitem_def)
    from run e n1 n2 show ?thesis unfolding Some by (simp del: split_paired_All)
  qed
qed

theorem state_filter_membership_witness:
  "(0::nat) < length [ex_table]
   \<and> ''populacao_estimada_2020'' \<in> set (pop_cols (columns ([ex_table] ! 0)))
   \<and> sidebar_estado_sel ([ex_table] ! 0) [Str ''SP''] = [Str ''SP'']
   \<and> (\<exists>a \<sigma>'. filter_stage (\<lambda>_. None) [Str ''SP''] (Some ''populacao_estimada_2020'') 0 0 [ex_table]
          = (Inr a, \<sigma>') \<and> map fst (rows (\<sigma>' ! a)) = [0, 2])"
proof -
  have h1: "(0::nat) < length [ex_table]" by simp
  have h2: "''populacao_estimada_2020'' \<in> set (pop_cols (columns ([ex_table] ! 0)))"
    by (simp add: ex_table_def pop_cols_def available_year_cols_def startswith_def)
  then have h2': "Some ''populacao_estimada_2020'' = None \<or> (\<exists>c \<in> set (pop_cols (columns ([ex_table] ! 0))).
      Some ''populacao_estimada_2020'' = Some c)" by simp
  have h3: "[Str ''SP''] = sidebar_estado_sel ([ex_table] ! 0) [Str ''SP'']"
    by (simp add: ex_table_def sidebar_estado_sel_def)
  from state_filter_membership [OF h1 h2' h3, of "\<lambda>_. None" 0]
  obtain a \<sigma>' where
    "filter_stage (\<lambda>_. None) [Str ''SP''] (Some ''populacao_estimada_2020'') 0 0 [ex_table] = (Inr a, \<sigma>')"
    "map fst (rows (\<sigma>' ! a)) = [0, 2]"
    by (auto simp: ex_table_def ex_row_def to_numeric_def)
  with h1 h2 h3 show ?thesis by simp
qed

section \<open>Properties of the first chart\<close>

lemma sorted_desc_take:
  "sorted (rev (map k (take n (rev (sort_key k xs)))))"
proof -
  have "rev (take n (rev (sort_key k xs))) = drop (length xs - n) (sort_key k xs)"
    by (simp add: rev_take)
  then have "rev (map k (take n (rev (sort_key k xs))))
      = drop (length xs - n) (map k (sort_key k xs))"
    by (simp add: rev_map drop_map)
  then show ?thesis by (simp add: sorted_wrt_drop)
qed

lemma desc_take_drop:
  assumes "x \<in> set (take n (rev (sort_key k xs)))" and "y \<in> set (drop n (rev (sort_key k xs)))"
  shows "k y \<le> k x"
proof -
  have "sorted_wrt (\<lambda>a b. k b \<le> k a) (rev (sort_key k xs))"
    using sorted_sort_key [of k xs] by (simp add: sorted_map sorted_wrt_rev)
  then have "sorted_wrt (\<lambda>a b. k b \<le> k a)
      (take n (rev (sort_key k xs)) @ drop n (rev (sort_key k xs)))"
    by simp
  with assms show ?thesis unfolding sorted_wrt_append by blast
qed

lemma nlargest_no_na:
  assumes "\<forall>(i, r) \<in> set (rows df). r c \<noteq> NA"
  shows "rows (nlargest n c df) = take n (rev (sort_key (\<lambda>(i, r). num_key (r c)) (rev (rows df))))"
proof -
  from assms have "filter (\<lambda>(i, r). r c \<noteq> NA) (rows df) = rows df"
    by (auto simp: filter_id_conv)
  moreover from assms have "filter (\<lambda>(i, r). r c = NA) (rows df) = []"
    by (auto simp: filter_empty_conv)
  ultimately show ?thesis by (simp add: nlargest_def)
qed

lemma top_n_transform_run:
  assumes "a < length \<sigma>" and "c \<in> set (columns (\<sigma> ! a))"
  shows "\<exists>a' \<sigma>'. top_n_transform parse c n a \<sigma> = (Inr a', \<sigma>')
     \<and> a' < length \<sigma>' \<and> length \<sigma> \<le> a'
     \<and> \<sigma>' ! a' = nlargest n c
          (setitem c (\<lambda>r. fillna (Num (Fin 0)) (to_numeric parse (r c))) (\<sigma> ! a))"
  using assms
  by (simp add: top_n_transform_def bnd_def df_copy_def load_def alloc_def ret_def raise_def
      need_col_def df_setitem_def mutate_def df_nlargest_def nth_append setitem_def)


text \<open>
  C5. For every \<open>n\<close>, so for every \<open>n\<close> from 5 to 50, the top-N transform of a
  filtered view with the population column \<open>c\<close> returns a frame with exactly
  \<open>min n\<close> (number of rows of the view) rows, sorted descending by \<open>c\<close>; they are rows of
  the view (with \<open>c\<close> coerced, 0 for a missing value), and every row of the view that is
  left out has a value of \<open>c\<close> no larger than any row returned.
\<close>

theorem top_n_largest:
  assumes "a < length \<sigma>" and "c \<in> set (columns (\<sigma> ! a))"
  shows "\<exists>a' \<sigma>'. top_n_transform parse c n a \<sigma> = (Inr a', \<sigma>')
     \<and> length (rows (\<sigma>' ! a')) = min n (length (rows (\<sigma> ! a)))
     \<and> sorted (rev (map (\<lambda>(i, r). num_key (r c)) (rows (\<sigma>' ! a'))))
     \<and> (\<exists>rest. mset (map (\<lambda>(i, r). (i, r(c := fillna (Num (Fin 0)) (to_numeric parse (r c)))))
                        (rows (\<sigma> ! a)))
                 = mset (rows (\<sigma>' ! a')) + mset rest
           \<and> (\<forall>x \<in> set (rows (\<sigma>' ! a')). \<forall>y \<in> set rest.
                 (\<lambda>(i, r). num_key (r c)) y \<le> (\<lambda>(i, r). num_key (r c)) x))"
proof -
  define k :: "nat \<times> row \<Rightarrow> fval" where "k = (\<lambda>(i, r). num_key (r c))"
  define xs where "xs = map (\<lambda>(i, r). (i, r(c := fillna (Num (Fin 0)) (to_numeric parse (r c)))))
                        (rows (\<sigma> ! a))"
  define L where "L = rev (sort_key k (rev xs))"
  from top_n_transform_run [OF assms, of parse n] obtain a' \<sigma>' where
    run: "top_n_transform parse c n a \<sigma> = (Inr a', \<sigma>')" and
    res: "\<sigma>' ! a' = nlargest n c
          (setitem c (\<lambda>r. fillna (Num (Fin 0)) (to_numeric parse (r c))) (\<sigma> ! a))"
    by blast
  have xs: "rows (setitem c (\<lambda>r. fillna (Num (Fin 0)) (to_numeric parse (r c))) (\<sigma> ! a)) = xs"
    by (simp add: setitem_def xs_def)
  have "\<forall>(i, r) \<in> set xs. r c \<noteq> NA"
    by (auto simp: xs_def fillna_def split: if_splits)
  then have rws: "rows (\<sigma>' ! a') = take n L"
    unfolding res L_def k_def using nlargest_no_na [of _ c n] xs by simp
  have len: "length (rows (\<sigma>' ! a')) = min n (length (rows (\<sigma> ! a)))"
    by (simp add: rws L_def xs_def min.commute)
  have srt: "sorted (rev (map k (rows (\<sigma>' ! a'))))"
    unfolding rws L_def by (rule sorted_desc_take)
  have "mset L = mset xs" by (simp add: L_def)
  moreover have "L = take n L @ drop n L" by simp
  ultimately have ms: "mset xs = mset (take n L) + mset (drop n L)"
    by (metis mset_append)
  have big: "\<forall>x \<in> set (take n L). \<forall>y \<in> set (drop n L). k y \<le> k x"
    unfolding L_def using desc_take_drop [of _ n k "rev xs"] by blast
  from ms big have "\<exists>rest. mset xs = mset (rows (\<sigma>' ! a')) + mset rest
           \<and> (\<forall>x \<in> set (rows (\<sigma>' ! a')). \<forall>y \<in> set rest. k y \<le> k x)"
    unfolding rws by blast
  with run len srt show ?thesis unfolding k_def xs_def by blast
qed


theorem top_n_largest_witness:
  "(0::nat) < length [ex_table]
   \<and> ''populacao_estimada_2020'' \<in> set (columns ([ex_table] ! 0))
   \<and> (\<exists>a' \<sigma>'. top_n_transform (\<lambda>_. None) ''populacao_estimada_2020'' 2 0 [ex_table] = (Inr a', \<sigma>')
        \<and> length (rows (\<sigma>' ! a')) = 2)"
proof -
  have h1: "(0::nat) < length [ex_table]" by simp
  have h2: "''populacao_estimada_2020'' \<in> set (columns ([ex_table] ! 0))"
    by (simp add: ex_table_def)
  from top_n_largest [OF h1 h2, of "\<lambda>_. None" 2] obtain a' \<sigma>' where
    "top_n_transform (\<lambda>_. None) ''populacao_estimada_2020'' 2 0 [ex_table] = (Inr a', \<sigma>')"
    "length (rows (\<sigma>' ! a')) = min 2 (length (rows ([ex_table] ! 0)))"
    by blast
  moreover have "min 2 (length (rows ([ex_table] ! 0))) = 2"
    by (simp add: ex_table_def)
  ultimately show ?thesis using h1 h2 by simp
qed

text \<open>
  C6 fails on the code. The first chart checks only for the population column and the
  column \<^verbatim>\<open>municipio\<close>, and then reads the column \<^verbatim>\<open>estado\<close>: on a table without
  that column the chart is not skipped, the script stops with a \<^verbatim>\<open>KeyError\<close>.
\<close>

theorem chart1_missing_estado_raises:
  "fst (bnd (filter_stage (\<lambda>_. None) (sidebar_estado_sel ex_no_estado [])
               (Some ''populacao_estimada_2020'') 0 0)
            (chart1 (\<lambda>_. None) (Some ''populacao_estimada_2020'') 5) [ex_no_estado])
   = Inl (KeyError ''estado'')"
  by (simp add: filter_stage_def chart1_def top_n_transform_def sidebar_estado_sel_def
      ex_no_estado_def bnd_def df_copy_def load_def alloc_def ret_def raise_def df_mask_def
      need_col_def df_setitem_def mutate_def df_nlargest_def truthy_def select_def setitem_def
      nlargest_def)

section \<open>Properties of the size categories\<close>

lemma lt_fval_simps [simp]:
  "Fin x < Fin y \<longleftrightarrow> x < y" "Fin x < PInf" "\<not> PInf < v" "\<not> v < NInf" "NInf < Fin x" "NInf < PInf"
  by (cases v; auto simp: less_fval_def)+











section \<open>Properties of the ranking chart\<close>



lemma columns_select [simp]: "columns (select P df) = columns df"
  by (simp add: select_def)

lemma columns_dropna [simp]: "columns (dropna cs df) = columns df"
  by (simp add: dropna_def)

lemma columns_nlargest [simp]: "columns (nlargest n c df) = columns df"
  by (simp add: nlargest_def)

lemma columns_nsmallest [simp]: "columns (nsmallest n c df) = columns df"
  by (simp add: nsmallest_def)

lemma columns_project [simp]: "columns (project cs df) = cs"
  by (simp add: project_def)

lemma columns_concat_frames [simp]:
  "columns (concat_frames fa fb) = columns fa @ filter (\<lambda>c. c \<notin> set (columns fa)) (columns fb)"
  by (simp add: concat_frames_def)













section \<open>Properties of the map tab\<close>













section \<open>The cached table is never changed\<close>

lemma keeps_refl: "keeps n \<sigma> \<sigma>"
  by (simp add: keeps_def)

lemma keeps_trans: "keeps n \<sigma> \<sigma>1 \<Longrightarrow> keeps n \<sigma>1 \<sigma>2 \<Longrightarrow> keeps n \<sigma> \<sigma>2"
  by (auto simp: keeps_def)

lemma local_new_any: "local_new n m \<Longrightarrow> local_any n m"
  by (simp add: local_new_def local_any_def)

lemma local_ret: "local_any n (ret x)"
  by (simp add: local_any_def ret_def keeps_refl)

lemma local_new_ret: "n \<le> a \<Longrightarrow> local_new n (ret a)"
  by (simp add: local_new_def ret_def keeps_refl)

lemma local_raise: "local_any n (raise e)"
  by (simp add: local_any_def raise_def keeps_refl)

lemma local_new_raise: "local_new n (raise e)"
  by (simp add: local_new_def raise_def keeps_refl)

lemma local_load: "local_any n (load a)"
  by (simp add: local_any_def load_def keeps_refl)

lemma local_alloc: "local_new n (alloc f)"
  by (simp add: local_new_def alloc_def keeps_def nth_append)

lemma local_mutate: "n \<le> a \<Longrightarrow> local_any n (mutate a g)"
  by (simp add: local_any_def mutate_def keeps_def)

lemma local_bnd_new_any:
  assumes "local_new n m" and "\<And>x. n \<le> x \<Longrightarrow> local_any n (f x)"
  shows "local_any n (bnd m f)"
  unfolding local_any_def
proof (intro allI impI)
  fix \<sigma> :: store assume n: "n \<le> length \<sigma>"
  with assms(1) have k1: "keeps n \<sigma> (snd (m \<sigma>))" and fr: "\<forall>a. fst (m \<sigma>) = Inr a \<longrightarrow> n \<le> a"
    by (simp_all add: local_new_def)
  obtain r \<sigma>1 where m: "m \<sigma> = (r, \<sigma>1)" by (cases "m \<sigma>")
  show "keeps n \<sigma> (snd (bnd m f \<sigma>))"
  proof (cases r)
    case (Inl e)
    with m k1 show ?thesis by (simp add: bnd_def)
  next
    case (Inr x)
    with m fr have "n \<le> x" by simp
    then have "local_any n (f x)" by (rule assms(2))
    moreover from k1 m n have "n \<le> length \<sigma>1" by (simp add: keeps_def)
    ultimately have "keeps n \<sigma>1 (snd (f x \<sigma>1))" by (simp add: local_any_def)
    with k1 m have "keeps n \<sigma> (snd (f x \<sigma>1))" by (auto intro: keeps_trans)
    with m Inr show ?thesis by (simp add: bnd_def)
  qed
qed

lemma local_bnd_any_any:
  assumes "local_any n m" and "\<And>x. local_any n (f x)"
  shows "local_any n (bnd m f)"
  unfolding local_any_def
proof (intro allI impI)
  fix \<sigma> :: store assume n: "n \<le> length \<sigma>"
  with assms(1) have k1: "keeps n \<sigma> (snd (m \<sigma>))"
    by (simp add: local_any_def)
  obtain r \<sigma>1 where m: "m \<sigma> = (r, \<sigma>1)" by (cases "m \<sigma>")
  show "keeps n \<sigma> (snd (bnd m f \<sigma>))"
  proof (cases r)
    case (Inl e)
    with m k1 show ?thesis by (simp add: bnd_def)
  next
    case (Inr x)
    have "local_any n (f x)" by (rule assms(2))
    moreover from k1 m n have "n \<le> length \<sigma>1" by (simp add: keeps_def)
    ultimately have "keeps n \<sigma>1 (snd (f x \<sigma>1))" by (simp add: local_any_def)
    with k1 m have "keeps n \<sigma> (snd (f x \<sigma>1))" by (auto intro: keeps_trans)
    with m Inr show ?thesis by (simp add: bnd_def)
  qed
qed

lemma local_bnd_new_new:
  assumes "local_new n m" and "\<And>x. n \<le> x \<Longrightarrow> local_new n (f x)"
  shows "local_new n (bnd m f)"
  unfolding local_new_def
proof (intro allI impI)
  fix \<sigma> :: store assume n: "n \<le> length \<sigma>"
  with assms(1) have k1: "keeps n \<sigma> (snd (m \<sigma>))" and fr: "\<forall>a. fst (m \<sigma>) = Inr a \<longrightarrow> n \<le> a"
    by (simp_all add: local_new_def)
  obtain r \<sigma>1 where m: "m \<sigma> = (r, \<sigma>1)" by (cases "m \<sigma>")
  show "keeps n \<sigma> (snd (bnd m f \<sigma>)) \<and> (\<forall>a. fst (bnd m f \<sigma>) = Inr a \<longrightarrow> n \<le> a)"
  proof (cases r)
    case (Inl e)
    with m k1 show ?thesis by (simp add: bnd_def)
  next
    case (Inr x)
    with m fr have "n \<le> x" by simp
    then have "local_new n (f x)" by (rule assms(2))
    moreover from k1 m n have "n \<le> length \<sigma>1" by (simp add: keeps_def)
    ultimately have "keeps n \<sigma>1 (snd (f x \<sigma>1))" and "\<forall>a. fst (f x \<sigma>1) = Inr a \<longrightarrow> n \<le> a"
      by (simp_all add: local_new_def)
    with k1 m have "keeps n \<sigma> (snd (f x \<sigma>1))" and "\<forall>a. fst (f x \<sigma>1) = Inr a \<longrightarrow> n \<le> a"
      by (auto intro: keeps_trans)
    with m Inr show ?thesis by (simp add: bnd_def)
  qed
qed

lemma local_bnd_any_new:
  assumes "local_any n m" and "\<And>x. local_new n (f x)"
  shows "local_new n (bnd m f)"
  unfolding local_new_def
proof (intro allI impI)
  fix \<sigma> :: store assume n: "n \<le> length \<sigma>"
  with assms(1) have k1: "keeps n \<sigma> (snd (m \<sigma>))"
    by (simp add: local_any_def)
  obtain r \<sigma>1 where m: "m \<sigma> = (r, \<sigma>1)" by (cases "m \<sigma>")
  show "keeps n \<sigma> (snd (bnd m f \<sigma>)) \<and> (\<forall>a. fst (bnd m f \<sigma>) = Inr a \<longrightarrow> n \<le> a)"
  proof (cases r)
    case (Inl e)
    with m k1 show ?thesis by (simp add: bnd_def)
  next
    case (Inr x)
    have "local_new n (f x)" by (rule assms(2))
    moreover from k1 m n have "n \<le> length \<sigma>1" by (simp add: keeps_def)
    ultimately have "keeps n \<sigma>1 (snd (f x \<sigma>1))" and "\<forall>a. fst (f x \<sigma>1) = Inr a \<longrightarrow> n \<le> a"
      by (simp_all add: local_new_def)
    with k1 m have "keeps n \<sigma> (snd (f x \<sigma>1))" and "\<forall>a. fst (f x \<sigma>1) = Inr a \<longrightarrow> n \<le> a"
      by (auto intro: keeps_trans)
    with m Inr show ?thesis by (simp add: bnd_def)
  qed
qed

lemma local_if_any:
  "(b \<Longrightarrow> local_any n m1) \<Longrightarrow> (\<not> b \<Longrightarrow> local_any n m2) \<Longrightarrow> local_any n (if b then m1 else m2)"
  by simp

lemma local_if_new:
  "(b \<Longrightarrow> local_new n m1) \<Longrightarrow> (\<not> b \<Longrightarrow> local_new n m2) \<Longrightarrow> local_new n (if b then m1 else m2)"
  by simp


lemmas local_bnd = local_bnd_new_any local_bnd_any_any local_bnd_new_new local_bnd_any_new

lemma local_df_copy: "local_new n (df_copy a)"
  unfolding df_copy_def by (intro local_bnd_any_new local_load local_alloc)

lemma local_df_mask: "local_new n (df_mask a P)"
  unfolding df_mask_def by (intro local_bnd_any_new local_load local_alloc)

lemma local_need_col: "local_any n (need_col a c)"
  unfolding need_col_def by (intro local_bnd_any_any local_load local_if_any local_ret local_raise)

lemma local_df_setitem: "n \<le> a \<Longrightarrow> local_any n (df_setitem a c fn)"
  unfolding df_setitem_def by (rule local_mutate)

lemma local_df_to_numeric: "n \<le> a \<Longrightarrow> local_any n (df_to_numeric parse a c)"
  unfolding df_to_numeric_def
  by (intro local_bnd_any_any local_need_col local_df_setitem)

lemma local_case_list:
  "local_new n m1 \<Longrightarrow> (\<And>y ys. local_new n (m2 y ys))
     \<Longrightarrow> local_new n (case xs of [] \<Rightarrow> m1 | y # ys \<Rightarrow> m2 y ys)"
  by (cases xs) simp_all

lemma local_df_dropna: "local_new n (df_dropna a cs)"
  unfolding df_dropna_def
  by (intro local_bnd_any_new local_load local_case_list local_alloc local_new_raise)

lemma local_df_project: "local_new n (df_project a cs)"
  unfolding df_project_def
  by (intro local_bnd_any_new local_load local_case_list local_alloc local_new_raise)

lemma local_df_nlargest: "local_new n (df_nlargest a k c)"
  unfolding df_nlargest_def
  by (intro local_bnd_any_new local_need_col local_load local_alloc)

lemma local_df_nsmallest: "local_new n (df_nsmallest a k c)"
  unfolding df_nsmallest_def
  by (intro local_bnd_any_new local_need_col local_load local_alloc)

lemma local_df_concat: "local_new n (df_concat a b)"
  unfolding df_concat_def
  by (intro local_bnd_any_new local_load local_alloc)

lemmas local_prims = local_ret local_raise local_load local_need_col local_df_copy
  local_df_mask local_df_dropna local_df_project local_df_nlargest local_df_nsmallest
  local_df_concat local_df_setitem local_df_to_numeric local_new_ret local_if_any local_if_new

lemma local_filter_stage: "local_new n (filter_stage parse S pc t df)"
  unfolding filter_stage_def
  by (intro local_bnd local_prims; assumption)

lemma local_top_n_transform: "local_new n (top_n_transform parse c k dff)"
  unfolding top_n_transform_def
  by (intro local_bnd local_prims; assumption)

lemma local_chart1: "local_any n (chart1 parse pc k dff)"
  unfolding chart1_def
  by (intro local_bnd local_prims local_top_n_transform; assumption)

lemma local_chart3: "local_any n (chart3 bc pc dff)"
  unfolding chart3_def
  by (intro local_bnd local_prims; assumption)

lemma local_porte_shape: "local_new n (porte_shape parse c1 c2 p labels dff)"
  unfolding porte_shape_def
  by (intro local_bnd local_prims; assumption)

lemma local_chart4: "local_any n (chart4 parse pc gc dff)"
  unfolding chart4_def
  by (intro local_bnd local_prims local_porte_shape; assumption)

lemma local_chart5: "local_any n (chart5 parse gc dff)"
  unfolding chart5_def
  by (intro local_bnd local_prims; assumption)

lemma local_chart6: "local_any n (chart6 parse pc gc dff)"
  unfolding chart6_def
  by (intro local_bnd local_prims local_porte_shape; assumption)

lemma local_chart7: "local_any n (chart7 parse ic dff)"
  unfolding chart7_def
  by (intro local_bnd local_prims; assumption)

lemma local_chart8: "local_any n (chart8 parse ic pc dff)"
  unfolding chart8_def
  by (intro local_bnd local_prims local_porte_shape; assumption)

lemma local_chart9: "local_any n (chart9 parse ic dff)"
  unfolding chart9_def
  by (intro local_bnd local_prims; assumption)

lemma local_map_section: "local_any n (map_section parse pc ic dff)"
  unfolding map_section_def
  by (intro local_bnd local_prims; assumption)

lemma local_script: "local_any n (script parse u df)"
  unfolding script_def
  by (intro local_bnd local_prims local_filter_stage local_chart1 local_chart3 local_chart4
      local_chart5 local_chart6 local_chart7 local_chart8 local_chart9 local_map_section)

lemma keeps_reruns: "n \<le> length \<sigma> \<Longrightarrow> keeps n \<sigma> (reruns parse us df \<sigma>)"
proof (induction us arbitrary: \<sigma>)
  case Nil
  show ?case by (simp add: keeps_refl)
next
  case (Cons u us)
  from local_script [of n parse u df] Cons.prems
  have k: "keeps n \<sigma> (snd (script parse u df \<sigma>))"
    by (simp add: local_any_def)
  with Cons.prems have "n \<le> length (snd (script parse u df \<sigma>))"
    by (simp add: keeps_def)
  then have "keeps n (snd (script parse u df \<sigma>)) (reruns parse us df (snd (script parse u df \<sigma>)))"
    by (rule Cons.IH)
  with k show ?case by (auto intro: keeps_trans)
qed


text \<open>
  The frame condition is not empty: an assignment to a column of the frame at address
  0 is not local above 1. It is the copies that keep the script away from the cached
  table.
\<close>

lemma setitem_in_place_not_local: "\<not> local_any 1 (df_setitem 0 ''x'' (\<lambda>_. NA))"
proof
  assume "local_any 1 (df_setitem 0 ''x'' (\<lambda>_. NA))"
  then have "keeps 1 [\<lparr>columns = [], rows = []\<rparr>]
      (snd (df_setitem 0 ''x'' (\<lambda>_. NA) [\<lparr>columns = [], rows = []\<rparr>]))"
    by (simp add: local_any_def)
  then have "snd (df_setitem 0 ''x'' (\<lambda>_. NA) [\<lparr>columns = [], rows = []\<rparr>]) ! 0
      = [\<lparr>columns = [], rows = []\<rparr>] ! 0"
    unfolding keeps_def by (elim conjE allE [of _ 0] impE) simp_all
  then show False
    by (simp add: df_setitem_def mutate_def setitem_def)
qed

text \<open>
  C9. The cached table is at address \<open>df\<close> of the store. After any sequence of
  interactions, each a run of the whole script (the filter stage and every chart
  section) with the sidebar settings of that interaction, the frame at \<open>df\<close> is the
  frame that was there at the start, and so is every frame the store held before:
  every assignment of the script goes to a frame the script has made itself.
\<close>

theorem cached_table_unchanged:
  assumes "df < length \<sigma>"
  shows "reruns parse us df \<sigma> ! df = \<sigma> ! df
     \<and> (\<forall>a < length \<sigma>. reruns parse us df \<sigma> ! a = \<sigma> ! a)"
proof -
  have "keeps (length \<sigma>) \<sigma> (reruns parse us df \<sigma>)"
    by (rule keeps_reruns) simp
  then have all: "\<forall>a < length \<sigma>. reruns parse us df \<sigma> ! a = \<sigma> ! a"
    by (simp add: keeps_def)
  with assms show ?thesis by simp
qed

theorem cached_table_unchanged_witness:
  "(0::nat) < length [ex_table]
   \<and> reruns (\<lambda>_. None) [ex_ui_1, ex_ui_2] 0 [ex_table] ! 0 = ex_table"
proof -
  have h: "(0::nat) < length [ex_table]" by simp
  from cached_table_unchanged [OF h, of "\<lambda>_. None" "[ex_ui_1, ex_ui_2]"]
  have "reruns (\<lambda>_. None) [ex_ui_1, ex_ui_2] 0 [ex_table] ! 0 = [ex_table] ! 0"
    by (rule conjunct1)
  then have "reruns (\<lambda>_. None) [ex_ui_1, ex_ui_2] 0 [ex_table] ! 0 = ex_table"
    by (simp only: nth_Cons_0)
  with h show ?thesis by (rule conjI)
qed

end
